theory Spec2Isabelle
  imports Main "HOL-Library.Sublist"
begin

section \<open>Python values and built-ins used by \<open>flask_discord/models/user.py\<close>\<close>

text \<open>
  The payload handed to \<open>User.__init__\<close> is a decoded JSON object, so its values are
  \<open>None\<close>, booleans, integers, strings, lists and dictionaries. A dictionary is an
  association list in insertion order, looked up with \<open>map_of\<close>. JSON numbers with a
  fraction or an exponent (Python floats) are left out: no operation of \<open>User\<close> computes
  with one.
\<close>

datatype pyval =
    PNone
  | PBool bool
  | PInt int
  | PStr string
  | PList "pyval list"
  | PDict "(string \<times> pyval) list"

text \<open>Every \<open>raise\<close> that can leave a method of \<open>User\<close> is a value of this type.
  \<open>Unauthorized\<close> and \<open>RateLimited\<close> are the exceptions of \<open>flask_discord\<close>;
  \<open>OtherError\<close> stands for any other error of the HTTP layer.\<close>

datatype error =
    KeyError string
  | TypeError
  | ValueError
  | AttributeError
  | Unauthorized
  | RateLimited
  | OtherError string

type_synonym pydict = "(string \<times> pyval) list"

text \<open>\<open>d[k]\<close> on a dictionary: \<open>KeyError\<close> when the key is absent.\<close>

definition dict_getitem :: "pydict \<Rightarrow> string \<Rightarrow> error + pyval" where
  "dict_getitem d k = (case map_of d k of None \<Rightarrow> Inl (KeyError k) | Some v \<Rightarrow> Inr v)"

text \<open>\<open>d.get(k, default)\<close>: the default only when the key is absent; a key that is
  present with the value \<open>None\<close> yields \<open>None\<close>.\<close>

definition dict_get :: "pydict \<Rightarrow> string \<Rightarrow> pyval \<Rightarrow> pyval" where
  "dict_get d k dflt = (case map_of d k of None \<Rightarrow> dflt | Some v \<Rightarrow> v)"

text \<open>\<open>v[k]\<close> with a string key on an arbitrary value: only a dictionary supports it
  (\<open>None\<close>, numbers, strings and lists raise \<open>TypeError\<close> for a string subscript).\<close>

definition py_getitem :: "pyval \<Rightarrow> string \<Rightarrow> error + pyval" where
  "py_getitem v k = (case v of PDict d \<Rightarrow> dict_getitem d k | _ \<Rightarrow> Inl TypeError)"

text \<open>Truth value of an object, as \<open>x or y\<close> tests it.\<close>

fun py_truthy :: "pyval \<Rightarrow> bool" where
  "py_truthy PNone = False"
| "py_truthy (PBool b) = b"
| "py_truthy (PInt i) = (i \<noteq> 0)"
| "py_truthy (PStr s) = (s \<noteq> [])"
| "py_truthy (PList xs) = (xs \<noteq> [])"
| "py_truthy (PDict d) = (d \<noteq> [])"

subsection \<open>\<open>int(x)\<close>\<close>

definition is_space :: "char \<Rightarrow> bool" where
  "is_space c = (let n = (of_char c :: nat) in (9 \<le> n \<and> n \<le> 13) \<or> (28 \<le> n \<and> n \<le> 32))"

definition digit_val :: "char \<Rightarrow> nat option" where
  "digit_val c = (let n = (of_char c :: nat) in if 48 \<le> n \<and> n \<le> 57 then Some (n - 48) else None)"

text \<open>The digits of a base-10 literal as \<open>int\<close> reads them: at least one digit, and single
  underscores allowed between digits only. The flag says whether the previous character
  was a digit.\<close>

fun digits_us :: "bool \<Rightarrow> nat \<Rightarrow> string \<Rightarrow> nat option" where
  "digits_us pd acc [] = (if pd then Some acc else None)"
| "digits_us pd acc (c # cs) =
     (if c = CHR ''_'' then (if pd then digits_us False acc cs else None)
      else (case digit_val c of
              None \<Rightarrow> None
            | Some d \<Rightarrow> digits_us True (10 * acc + d) cs))"

definition strip :: "string \<Rightarrow> string" where
  "strip s = rev (dropWhile is_space (rev (dropWhile is_space s)))"

text \<open>\<open>int(s)\<close> for a string: surrounding whitespace is dropped, one sign is allowed,
  anything else that is not a digit sequence raises \<open>ValueError\<close>. (Characters are
  bytes here, so digits and spaces beyond ASCII are not modelled, nor is the limit on
  the number of digits that recent interpreters impose.)\<close>

definition int_of_str :: "string \<Rightarrow> error + int" where
  "int_of_str s =
     (case strip s of
        [] \<Rightarrow> Inl ValueError
      | c # cs \<Rightarrow>
          if c = CHR ''-'' then
            (case digits_us False 0 cs of None \<Rightarrow> Inl ValueError | Some n \<Rightarrow> Inr (- int n))
          else if c = CHR ''+'' then
            (case digits_us False 0 cs of None \<Rightarrow> Inl ValueError | Some n \<Rightarrow> Inr (int n))
          else
            (case digits_us False 0 (c # cs) of None \<Rightarrow> Inl ValueError | Some n \<Rightarrow> Inr (int n)))"

fun py_int :: "pyval \<Rightarrow> error + int" where
  "py_int (PInt i) = Inr i"
| "py_int (PBool b) = Inr (if b then 1 else 0)"
| "py_int (PStr s) = int_of_str s"
| "py_int PNone = Inl TypeError"
| "py_int (PList xs) = Inl TypeError"
| "py_int (PDict d) = Inl TypeError"

subsection \<open>\<open>str(x)\<close> and \<open>str.format\<close>\<close>

definition digit_char :: "nat \<Rightarrow> char" where
  "digit_char d = ''0123456789'' ! d"

fun dec_nat :: "nat \<Rightarrow> string" where
  "dec_nat n = (if n < 10 then [digit_char n] else dec_nat (n div 10) @ [digit_char (n mod 10)])"

declare dec_nat.simps [simp del]

definition str_of_int :: "int \<Rightarrow> string" where
  "str_of_int i = (if i < 0 then CHR ''-'' # dec_nat (nat (- i)) else dec_nat (nat i))"

text \<open>\<open>str(x)\<close>. The text Python prints for a list or a dictionary (the \<open>repr\<close> of its
  elements, with quoting and escapes) is not modelled: it is the parameter \<open>rc\<close>.\<close>

fun py_str :: "(pyval \<Rightarrow> string) \<Rightarrow> pyval \<Rightarrow> string" where
  "py_str rc PNone = ''None''"
| "py_str rc (PBool b) = (if b then ''True'' else ''False'')"
| "py_str rc (PInt i) = str_of_int i"
| "py_str rc (PStr s) = s"
| "py_str rc (PList xs) = rc (PList xs)"
| "py_str rc (PDict d) = rc (PDict d)"

text \<open>\<open>s.startswith(p)\<close>.\<close>

definition startswith :: "string \<Rightarrow> string \<Rightarrow> bool" where
  "startswith s p = (take (length p) s = p)"

text \<open>A format string as \<open>str.format\<close> reads it: literal text and replacement fields
  \<open>{name}\<close>.\<close>

datatype piece = Lit string | Fld string

text \<open>The text each piece of the template turns into, with keyword arguments \<open>kw\<close>; a
  field that names no argument raises \<open>KeyError\<close>.\<close>

fun format_pieces :: "(pyval \<Rightarrow> string) \<Rightarrow> piece list \<Rightarrow> pydict \<Rightarrow> error + string list" where
  "format_pieces rc [] kw = Inr []"
| "format_pieces rc (Lit s # ps) kw =
     (case format_pieces rc ps kw of Inl e \<Rightarrow> Inl e | Inr segs \<Rightarrow> Inr (s # segs))"
| "format_pieces rc (Fld k # ps) kw =
     (case map_of kw k of
        None \<Rightarrow> Inl (KeyError k)
      | Some v \<Rightarrow>
          (case format_pieces rc ps kw of Inl e \<Rightarrow> Inl e | Inr segs \<Rightarrow> Inr (py_str rc v # segs)))"

definition str_format :: "(pyval \<Rightarrow> string) \<Rightarrow> piece list \<Rightarrow> pydict \<Rightarrow> error + string" where
  "str_format rc tmpl kw = (case format_pieces rc tmpl kw of Inl e \<Rightarrow> Inl e | Inr segs \<Rightarrow> Inr (concat segs))"

section \<open>The data model\<close>

text \<open>Modelled from the spec: \<open>Guild\<close> (\<open>models/guild.py\<close> is not part of the sources). \<open>User\<close>
  reads only the \<open>id\<close> of a guild; the rest of the object is its payload.\<close>

record guild =
  guild_id :: int
  guild_payload :: pydict

text \<open>Modelled from the spec: \<open>UserConnection\<close> (\<open>models/connections.py\<close> is not part of
  the sources). \<open>User\<close> stores these objects and reads nothing of them.\<close>

datatype user_connection = UserConnection pydict

text \<open>The attributes \<open>User.__init__\<close> assigns. \<open>id\<close>, \<open>bot\<close> and \<open>locale\<close> carry a suffix
  (the bare names are taken in HOL); \<open>priv_payload\<close> and \<open>priv_guilds\<close> are \<open>_payload\<close> and
  \<open>_guilds\<close>. The guild cache is a \<open>dict\<close>: an association list with distinct keys, in
  insertion order.\<close>

record user =
  priv_payload :: pydict
  id_attr :: int
  username :: pyval
  discriminator :: pyval
  avatar_hash :: pyval
  bot_attr :: pyval
  mfa_enabled :: pyval
  locale_attr :: pyval
  verified :: pyval
  email :: pyval
  flags :: pyval
  premium_type :: pyval
  priv_guilds :: "(int \<times> guild) list"
  connections :: "user_connection list"

text \<open>The constants of the \<open>configs\<close> module that \<open>avatar_url\<close> reads. The module is not
  part of the sources, so they are parameters; the URL template is given as
  \<open>str.format\<close> parses it.\<close>

record configs =
  DISCORD_USER_AVATAR_BASE_URL :: "piece list"
  DISCORD_IMAGE_FORMAT :: string
  DISCORD_ANIMATED_IMAGE_FORMAT :: string

text \<open>Everything outside \<open>user.py\<close> that a method of \<open>User\<close> reads or calls at the moment
  of the call: the \<open>configs\<close> module, Flask's \<open>session\<close> and \<open>current_app.config\<close>, the
  inherited \<open>_request(route, method, oauth, json, headers)\<close>, the class methods
  \<open>Guild.fetch_from_api()\<close> and \<open>UserConnection.fetch_from_api()\<close> (each either raises
  or returns its records), and the interpreter's text for a list or dictionary.\<close>

record world =
  w_configs :: configs
  w_session :: pydict
  w_app_config :: pydict
  w_request :: "string \<Rightarrow> string \<Rightarrow> bool \<Rightarrow> pyval \<Rightarrow> (string \<times> string) list \<Rightarrow> error + pyval"
  Guild_fetch_from_api :: "error + guild list"
  UserConnection_fetch_from_api :: "error + user_connection list"
  w_repr :: "pyval \<Rightarrow> string"

section \<open>\<open>User\<close>\<close>

text \<open>Modelled from the spec: \<open>DiscordModelsBase.__init__\<close> (\<open>models/base.py\<close> is not part
  of the sources) stores the payload as \<open>_payload\<close>, which is what \<open>User.__init__\<close> reads
  back on its next line.\<close>

definition base_init :: "pydict \<Rightarrow> pydict" where
  "base_init payload = payload"

text \<open>\<open>User.__init__\<close>, statement by statement: the three subscripts raise \<open>KeyError\<close> on
  an absent key and \<open>int\<close> raises on a value it cannot convert; the \<open>get\<close> calls never
  raise.\<close>

definition init_User :: "pydict \<Rightarrow> error + user" where
  "init_User payload =
     (let p = base_init payload in
      case dict_getitem p ''id'' of
        Inl e \<Rightarrow> Inl e
      | Inr idv \<Rightarrow>
     (case py_int idv of
        Inl e \<Rightarrow> Inl e
      | Inr i \<Rightarrow>
     (case dict_getitem p ''username'' of
        Inl e \<Rightarrow> Inl e
      | Inr un \<Rightarrow>
     (case dict_getitem p ''discriminator'' of
        Inl e \<Rightarrow> Inl e
      | Inr disc \<Rightarrow>
          Inr \<lparr> priv_payload = p,
                id_attr = i,
                username = un,
                discriminator = disc,
                avatar_hash = dict_get p ''avatar'' disc,
                bot_attr = dict_get p ''bot'' (PBool False),
                mfa_enabled = dict_get p ''mfa_enabled'' PNone,
                locale_attr = dict_get p ''locale'' PNone,
                verified = dict_get p ''verified'' PNone,
                email = dict_get p ''email'' PNone,
                flags = dict_get p ''flags'' PNone,
                premium_type = dict_get p ''premium_type'' PNone,
                priv_guilds = [],
                connections = [] \<rparr>))))"

text \<open>The property \<open>guilds\<close>: \<open>list(self._guilds.values())\<close>.\<close>

definition guilds :: "user \<Rightarrow> guild list" where
  "guilds u = map snd (priv_guilds u)"

text \<open>The property \<open>name\<close>.\<close>

definition name_prop :: "user \<Rightarrow> pyval" where
  "name_prop u = username u"

text \<open>\<open>__str__\<close>: \<open>f"{self.name}#{self.discriminator}"\<close>.\<close>

definition str_User :: "world \<Rightarrow> user \<Rightarrow> string" where
  "str_User w u = py_str (w_repr w) (name_prop u) @ ''#'' @ py_str (w_repr w) (discriminator u)"

text \<open>The property \<open>is_avatar_animated\<close>: \<open>self.avatar_hash.startswith("a_")\<close>. Of the
  values a payload holds only a string has the method; on any other the attribute
  lookup raises \<open>AttributeError\<close>.\<close>

definition is_avatar_animated :: "user \<Rightarrow> error + bool" where
  "is_avatar_animated u =
     (case avatar_hash u of
        PStr s \<Rightarrow> Inr (startswith s ''a_'')
      | _ \<Rightarrow> Inl AttributeError)"

text \<open>The property \<open>avatar_url\<close>. The conditional expression evaluates
  \<open>self.is_avatar_animated\<close> first, then picks the format constant, then formats the
  template with the three keyword arguments. \<open>avatar_url_segments\<close> is the same
  computation before the pieces are joined.\<close>

definition avatar_url_kwargs :: "configs \<Rightarrow> user \<Rightarrow> bool \<Rightarrow> pydict" where
  "avatar_url_kwargs c u anim =
     (let image_format = (if anim then DISCORD_ANIMATED_IMAGE_FORMAT c else DISCORD_IMAGE_FORMAT c)
      in [(''user_id'', PInt (id_attr u)),
          (''avatar_hash'', avatar_hash u),
          (''format'', PStr image_format)])"

definition avatar_url_segments :: "world \<Rightarrow> user \<Rightarrow> error + string list" where
  "avatar_url_segments w u =
     (case is_avatar_animated u of
        Inl e \<Rightarrow> Inl e
      | Inr anim \<Rightarrow>
          format_pieces (w_repr w) (DISCORD_USER_AVATAR_BASE_URL (w_configs w))
            (avatar_url_kwargs (w_configs w) u anim))"

definition avatar_url :: "world \<Rightarrow> user \<Rightarrow> error + string" where
  "avatar_url w u =
     (case is_avatar_animated u of
        Inl e \<Rightarrow> Inl e
      | Inr anim \<Rightarrow>
          str_format (w_repr w) (DISCORD_USER_AVATAR_BASE_URL (w_configs w))
            (avatar_url_kwargs (w_configs w) u anim))"

text \<open>\<open>add_to_guild(guild_id)\<close>. The two subscripts on the session and the one on the
  application's configuration come first and raise like any subscript; the request is
  made only after them, and a falsy answer of the request is replaced by \<open>dict()\<close>. The
  user object is not assigned to.\<close>

definition add_to_guild :: "world \<Rightarrow> user \<Rightarrow> int \<Rightarrow> error + pyval" where
  "add_to_guild w u gid =
     (case dict_getitem (w_session w) ''DISCORD_OAUTH2_TOKEN'' of
        Inl e \<Rightarrow> Inl e
      | Inr tok \<Rightarrow>
     (case py_getitem tok ''access_token'' of
        Inl e \<Rightarrow> Inl e
      | Inr at \<Rightarrow>
     (case dict_getitem (w_app_config w) ''DISCORD_BOT_TOKEN'' of
        Inl e \<Rightarrow> Inl e
      | Inr bt \<Rightarrow>
     (case w_request w
             (''/guilds/'' @ str_of_int gid @ ''/members/'' @ str_of_int (id_attr u))
             ''PUT'' False
             (PDict [(''access_token'', at)])
             [(''Authorization'', ''Bot '' @ py_str (w_repr w) bt)] of
        Inl e \<Rightarrow> Inl e
      | Inr r \<Rightarrow> Inr (if py_truthy r then r else PDict [])))))"

text \<open>\<open>d[k] = v\<close> on a \<open>dict\<close>: an existing key keeps its place and takes the new value, a
  new key goes to the end.\<close>

fun dict_setitem :: "('k \<times> 'v) list \<Rightarrow> 'k \<Rightarrow> 'v \<Rightarrow> ('k \<times> 'v) list" where
  "dict_setitem [] k v = [(k, v)]"
| "dict_setitem ((k', v') # d) k v =
     (if k' = k then (k, v) # d else (k', v') # dict_setitem d k v)"

text \<open>The comprehension \<open>{guild.id: guild for guild in gs}\<close>: the records are stored
  one after the other into a fresh dictionary.\<close>

definition guild_dict :: "guild list \<Rightarrow> (int \<times> guild) list" where
  "guild_dict gs = foldl (\<lambda>d g. dict_setitem d (guild_id g) g) [] gs"

text \<open>\<open>fetch_guilds()\<close>: the result and the user afterwards. The right-hand side of the
  assignment is evaluated in full before \<open>self._guilds\<close> is assigned.\<close>

definition fetch_guilds :: "world \<Rightarrow> user \<Rightarrow> (error + guild list) \<times> user" where
  "fetch_guilds w u =
     (case Guild_fetch_from_api w of
        Inl e \<Rightarrow> (Inl e, u)
      | Inr gs \<Rightarrow>
          (let u' = u\<lparr>priv_guilds := guild_dict gs\<rparr> in (Inr (guilds u'), u')))"

text \<open>\<open>fetch_connections()\<close>.\<close>

definition fetch_connections :: "world \<Rightarrow> user \<Rightarrow> (error + user_connection list) \<times> user" where
  "fetch_connections w u =
     (case UserConnection_fetch_from_api w of
        Inl e \<Rightarrow> (Inl e, u)
      | Inr cs \<Rightarrow>
          (let u' = u\<lparr>connections := cs\<rparr> in (Inr (connections u'), u')))"

text \<open>The operations of \<open>User\<close> as one step function over the object: each operation
  with what it returns or raises, and the object afterwards.\<close>

datatype operation =
    Get_guilds
  | Get_name
  | Get_str
  | Get_avatar_url
  | Get_is_avatar_animated
  | Add_to_guild int
  | Fetch_guilds
  | Fetch_connections

datatype outcome =
    Out_guilds "guild list"
  | Out_val pyval
  | Out_string string
  | Out_bool bool
  | Out_connections "user_connection list"

fun step :: "world \<Rightarrow> operation \<Rightarrow> user \<Rightarrow> (error + outcome) \<times> user" where
  "step w Get_guilds u = (Inr (Out_guilds (guilds u)), u)"
| "step w Get_name u = (Inr (Out_val (name_prop u)), u)"
| "step w Get_str u = (Inr (Out_string (str_User w u)), u)"
| "step w Get_avatar_url u = (map_sum id Out_string (avatar_url w u), u)"
| "step w Get_is_avatar_animated u = (map_sum id Out_bool (is_avatar_animated u), u)"
| "step w (Add_to_guild gid) u = (map_sum id Out_val (add_to_guild w u gid), u)"
| "step w Fetch_guilds u = (case fetch_guilds w u of (r, u') \<Rightarrow> (map_sum id Out_guilds r, u'))"
| "step w Fetch_connections u =
     (case fetch_connections w u of (r, u') \<Rightarrow> (map_sum id Out_connections r, u'))"

section \<open>Reference notions used in the statements\<close>




subsection \<open>Example values\<close>

definition example_payload :: pydict where
  "example_payload =
     [(''id'', PStr ''80351110224678912''), (''username'', PStr ''Nelly''),
      (''discriminator'', PStr ''1337''), (''avatar'', PStr ''a_abc123'')]"

definition example_user :: user where
  "example_user =
     \<lparr> priv_payload = example_payload, id_attr = 80351110224678912, username = PStr ''Nelly'',
       discriminator = PStr ''1337'', avatar_hash = PStr ''a_abc123'', bot_attr = PBool False,
       mfa_enabled = PNone, locale_attr = PNone, verified = PNone, email = PNone, flags = PNone,
       premium_type = PNone, priv_guilds = [], connections = [] \<rparr>"

definition no_avatar_payload :: pydict where
  "no_avatar_payload =
     [(''id'', PInt 42), (''username'', PStr ''Nelly''), (''discriminator'', PStr ''1337'')]"

definition no_avatar_user :: user where
  "no_avatar_user =
     \<lparr> priv_payload = no_avatar_payload, id_attr = 42, username = PStr ''Nelly'',
       discriminator = PStr ''1337'', avatar_hash = PStr ''1337'', bot_attr = PBool False,
       mfa_enabled = PNone, locale_attr = PNone, verified = PNone, email = PNone, flags = PNone,
       premium_type = PNone, priv_guilds = [], connections = [] \<rparr>"

definition null_avatar_payload :: pydict where
  "null_avatar_payload =
     [(''id'', PInt 42), (''username'', PStr ''Nelly''), (''discriminator'', PStr ''1337''),
      (''avatar'', PNone)]"

text \<open>A configuration with distinct formats for still and animated avatars.\<close>

definition example_configs :: configs where
  "example_configs =
     \<lparr> DISCORD_USER_AVATAR_BASE_URL =
         [Lit ''https://cdn.discordapp.com/avatars/'', Fld ''user_id'', Lit ''/'',
          Fld ''avatar_hash'', Lit ''.'', Fld ''format''],
       DISCORD_IMAGE_FORMAT = ''png'',
       DISCORD_ANIMATED_IMAGE_FORMAT = ''gif'' \<rparr>"

definition guild_a :: guild where
  "guild_a = \<lparr> guild_id = 7, guild_payload = [(''name'', PStr ''first'')] \<rparr>"

definition guild_b :: guild where
  "guild_b = \<lparr> guild_id = 9, guild_payload = [(''name'', PStr ''second'')] \<rparr>"

definition guild_a2 :: guild where
  "guild_a2 = \<lparr> guild_id = 7, guild_payload = [(''name'', PStr ''renamed'')] \<rparr>"

definition example_world :: world where
  "example_world =
     \<lparr> w_configs = example_configs,
       w_session = [(''DISCORD_OAUTH2_TOKEN'', PDict [(''access_token'', PStr ''tok'')])],
       w_app_config = [(''DISCORD_BOT_TOKEN'', PStr ''bot'')],
       w_request = (\<lambda>route meth oauth js hdrs. Inr PNone),
       Guild_fetch_from_api = Inr [guild_a, guild_b],
       UserConnection_fetch_from_api = Inr [UserConnection [(''type'', PStr ''twitch'')]],
       w_repr = (\<lambda>v. ''?'') \<rparr>"

definition stale_user :: user where
  "stale_user = example_user\<lparr>priv_guilds := [(1, \<lparr>guild_id = 1, guild_payload = []\<rparr>)]\<rparr>"

definition still_user :: user where
  "still_user = example_user\<lparr>avatar_hash := PStr ''abc123''\<rparr>"

section \<open>Auxiliary facts\<close>

lemmas eval_init =
  init_User_def base_init_def dict_getitem_def dict_get_def int_of_str_def strip_def
  is_space_def digit_val_def

lemma init_example: "init_User example_payload = Inr example_user"
  by (simp add: eval_init example_payload_def example_user_def)

lemma startswith_prefix: "startswith s p = prefix p s"
  unfolding startswith_def prefix_def
  by (metis append_eq_conv_conj append_take_drop_id)

lemma init_User_fields:
  assumes "init_User p = Inr u"
  shows "dict_getitem p ''discriminator'' = Inr (discriminator u)"
    and "avatar_hash u = dict_get p ''avatar'' (discriminator u)"
    and "priv_guilds u = []"
    and "connections u = []"
  using assms
  by (auto simp: init_User_def base_init_def Let_def split: sum.splits)

subsection \<open>Reading a numeric string\<close>






subsection \<open>The guild dictionary\<close>

lemma dict_setitem_lookup:
  "map_of (dict_setitem d k v) k' = (if k' = k then Some v else map_of d k')"
  by (induction d) auto

lemma dict_setitem_keyset: "fst ` set (dict_setitem d k v) = insert k (fst ` set d)"
  unfolding dom_map_of_conv_image_fst [symmetric]
  by (auto simp: dom_def dict_setitem_lookup split: if_splits)

lemma dict_setitem_append:
  "k \<notin> fst ` set d \<Longrightarrow> dict_setitem d k v = d @ [(k, v)]"
  by (induction d) auto

lemma dict_setitem_distinct:
  "distinct (map fst d) \<Longrightarrow> distinct (map fst (dict_setitem d k v))"
proof (induction d)
  case Nil
  then show ?case by simp
next
  case (Cons kv d)
  then show ?case
    by (cases kv) (auto simp: dict_setitem_keyset)
qed

lemma foldl_store_keys:
  "fst ` set (foldl (\<lambda>d g. dict_setitem d (guild_id g) g) d gs) = fst ` set d \<union> guild_id ` set gs"
  by (induction gs arbitrary: d) (simp_all add: dict_setitem_keyset)

lemma foldl_store_distinct:
  "distinct (map fst d) \<Longrightarrow> distinct (map fst (foldl (\<lambda>d g. dict_setitem d (guild_id g) g) d gs))"
  by (induction gs arbitrary: d) (simp_all add: dict_setitem_distinct)

lemma foldl_store_lookup:
  "map_of (foldl (\<lambda>d g. dict_setitem d (guild_id g) g) d gs) k =
     (case map_of (rev (map (\<lambda>g. (guild_id g, g)) gs)) k of None \<Rightarrow> map_of d k | Some g \<Rightarrow> Some g)"
  by (induction gs arbitrary: d)
     (auto simp: dict_setitem_lookup map_add_def split: option.splits)

lemma foldl_store_fresh:
  "distinct (map guild_id gs) \<Longrightarrow> fst ` set d \<inter> guild_id ` set gs = {} \<Longrightarrow>
     foldl (\<lambda>d g. dict_setitem d (guild_id g) g) d gs = d @ map (\<lambda>g. (guild_id g, g)) gs"
proof (induction gs arbitrary: d)
  case Nil
  then show ?case by simp
next
  case (Cons g gs)
  from Cons.prems have fresh: "guild_id g \<notin> fst ` set d" by auto
  have "foldl (\<lambda>d g. dict_setitem d (guild_id g) g) d (g # gs) =
          foldl (\<lambda>d g. dict_setitem d (guild_id g) g) (d @ [(guild_id g, g)]) gs"
    by (simp add: dict_setitem_append [OF fresh])
  also have "\<dots> = (d @ [(guild_id g, g)]) @ map (\<lambda>g. (guild_id g, g)) gs"
    using Cons.prems by (intro Cons.IH) auto
  finally show ?case by simp
qed

lemma guild_dict_keys: "fst ` set (guild_dict gs) = guild_id ` set gs"
  by (simp add: guild_dict_def foldl_store_keys)

lemma guild_dict_distinct: "distinct (map fst (guild_dict gs))"
  by (simp add: guild_dict_def foldl_store_distinct)

lemma guild_dict_lookup:
  "map_of (guild_dict gs) k = map_of (rev (map (\<lambda>g. (guild_id g, g)) gs)) k"
  by (simp add: guild_dict_def foldl_store_lookup split: option.splits)

lemma guild_dict_length: "length (guild_dict gs) = card (guild_id ` set gs)"
proof -
  have "length (guild_dict gs) = length (map fst (guild_dict gs))" by simp
  also have "\<dots> = card (set (map fst (guild_dict gs)))"
    using guild_dict_distinct by (rule distinct_card [symmetric])
  finally show ?thesis by (simp add: guild_dict_keys)
qed

lemma guild_dict_values: "snd ` set (guild_dict gs) \<subseteq> set gs"
proof
  fix g assume "g \<in> snd ` set (guild_dict gs)"
  then obtain k where "(k, g) \<in> set (guild_dict gs)" by auto
  then have "map_of (guild_dict gs) k = Some g"
    using guild_dict_distinct by simp
  then have "map_of (rev (map (\<lambda>g. (guild_id g, g)) gs)) k = Some g"
    by (simp add: guild_dict_lookup)
  then have "(k, g) \<in> set (rev (map (\<lambda>g. (guild_id g, g)) gs))"
    by (rule map_of_SomeD)
  then show "g \<in> set gs" by auto
qed

lemma guild_dict_distinct_ids:
  "distinct (map guild_id gs) \<Longrightarrow> guild_dict gs = map (\<lambda>g. (guild_id g, g)) gs"
  using foldl_store_fresh [of gs "[]"] by (simp add: guild_dict_def)

subsection \<open>Formatting the avatar URL\<close>

lemma format_pieces_repr:
  assumes "\<forall>k v. map_of kw k = Some v \<longrightarrow> py_str rc v = py_str rc' v"
  shows "format_pieces rc tmpl kw = format_pieces rc' tmpl kw"
  using assms
  by (induction rc tmpl kw rule: format_pieces.induct) (auto split: option.splits sum.splits)

lemma format_pieces_change_one:
  assumes "\<forall>k. k \<noteq> x \<longrightarrow> map_of kw' k = map_of kw k" and "map_of kw' x \<noteq> None"
    and "format_pieces rc tmpl kw = Inr segs"
  shows "\<exists>segs'. format_pieces rc tmpl kw' = Inr segs'
           \<and> length segs = length tmpl \<and> length segs' = length tmpl
           \<and> (\<forall>i<length tmpl. tmpl ! i \<noteq> Fld x \<longrightarrow> segs' ! i = segs ! i)"
  using assms(3)
proof (induction tmpl arbitrary: segs)
  case Nil
  then show ?case by simp
next
  case (Cons p ps)
  show ?case
  proof (cases p)
    case (Lit s)
    with Cons.prems obtain segs0 where r: "format_pieces rc ps kw = Inr segs0" and s: "segs = s # segs0"
      by (auto split: sum.splits)
    from Cons.IH [OF r] obtain segs0' where
      "format_pieces rc ps kw' = Inr segs0'" "length segs0 = length ps" "length segs0' = length ps"
      "\<forall>i<length ps. ps ! i \<noteq> Fld x \<longrightarrow> segs0' ! i = segs0 ! i" by blast
    then show ?thesis
      using Lit s by (auto simp: nth_Cons split: nat.splits)
  next
    case (Fld k)
    with Cons.prems obtain v segs0 where v: "map_of kw k = Some v"
      and r: "format_pieces rc ps kw = Inr segs0" and s: "segs = py_str rc v # segs0"
      by (auto split: sum.splits option.splits)
    from Cons.IH [OF r] obtain segs0' where IH:
      "format_pieces rc ps kw' = Inr segs0'" "length segs0 = length ps" "length segs0' = length ps"
      "\<forall>i<length ps. ps ! i \<noteq> Fld x \<longrightarrow> segs0' ! i = segs0 ! i" by blast
    show ?thesis
    proof (cases "k = x")
      case True
      with assms(2) obtain v' where "map_of kw' k = Some v'" by auto
      then show ?thesis
        using Fld s IH True by (auto simp: nth_Cons split: nat.splits)
    next
      case False
      with assms(1) v have "map_of kw' k = Some v" by simp
      then show ?thesis
        using Fld s IH False by (auto simp: nth_Cons split: nat.splits)
    qed
  qed
qed

lemma avatar_url_concat:
  "avatar_url w u = (case avatar_url_segments w u of Inl e \<Rightarrow> Inl e | Inr segs \<Rightarrow> Inr (concat segs))"
  by (simp add: avatar_url_def avatar_url_segments_def str_format_def split: sum.splits)

lemma avatar_url_segments_str:
  assumes "avatar_hash u = PStr h"
  shows "avatar_url_segments w u =
           format_pieces rc (DISCORD_USER_AVATAR_BASE_URL (w_configs w))
             [(''user_id'', PInt (id_attr u)), (''avatar_hash'', PStr h),
              (''format'', PStr (if prefix ''a_'' h then DISCORD_ANIMATED_IMAGE_FORMAT (w_configs w)
                                 else DISCORD_IMAGE_FORMAT (w_configs w)))]"
proof -
  have "avatar_url_segments w u =
           format_pieces (w_repr w) (DISCORD_USER_AVATAR_BASE_URL (w_configs w))
             [(''user_id'', PInt (id_attr u)), (''avatar_hash'', PStr h),
              (''format'', PStr (if prefix ''a_'' h then DISCORD_ANIMATED_IMAGE_FORMAT (w_configs w)
                                 else DISCORD_IMAGE_FORMAT (w_configs w)))]"
    using assms
    by (simp add: avatar_url_segments_def is_avatar_animated_def avatar_url_kwargs_def
                  startswith_prefix)
  also have "\<dots> = format_pieces rc (DISCORD_USER_AVATAR_BASE_URL (w_configs w))
             [(''user_id'', PInt (id_attr u)), (''avatar_hash'', PStr h),
              (''format'', PStr (if prefix ''a_'' h then DISCORD_ANIMATED_IMAGE_FORMAT (w_configs w)
                                 else DISCORD_IMAGE_FORMAT (w_configs w)))]"
    by (rule format_pieces_repr) (auto split: if_splits)
  finally show ?thesis .
qed

lemma avatar_url_segments_pure:
  assumes "w_configs w = w_configs w'" "id_attr u = id_attr u'" "avatar_hash u = avatar_hash u'"
  shows "avatar_url_segments w u = avatar_url_segments w' u'"
proof (cases "avatar_hash u")
  case (PStr h)
  then show ?thesis
    using assms avatar_url_segments_str [of u h w "w_repr w"]
      avatar_url_segments_str [of u' h w' "w_repr w"]
    by simp
qed (use assms in \<open>simp_all add: avatar_url_segments_def is_avatar_animated_def\<close>)

lemma avatar_url_formatted:
  assumes "avatar_hash u = PStr h"
  shows "avatar_url w u =
        str_format (w_repr w) (DISCORD_USER_AVATAR_BASE_URL (w_configs w))
          [(''user_id'', PInt (id_attr u)), (''avatar_hash'', PStr h),
           (''format'', PStr (if prefix ''a_'' h then DISCORD_ANIMATED_IMAGE_FORMAT (w_configs w)
                              else DISCORD_IMAGE_FORMAT (w_configs w)))]"
  using assms
  by (simp add: avatar_url_def is_avatar_animated_def avatar_url_kwargs_def startswith_prefix)

lemma avatar_url_same_inputs:
  assumes "w_configs w = w_configs w'" "id_attr u = id_attr u'" "avatar_hash u = avatar_hash u'"
  shows "avatar_url w u = avatar_url w' u'"
  using avatar_url_segments_pure [OF assms] by (simp add: avatar_url_concat)

lemma avatar_url_hash_segment:
  assumes h: "avatar_hash u = PStr h" and pf: "prefix ''a_'' h' = prefix ''a_'' h"
    and sg: "avatar_url_segments w u = Inr segs"
  shows "\<exists>segs'. avatar_url_segments w (u\<lparr>avatar_hash := PStr h'\<rparr>) = Inr segs'
           \<and> avatar_url w u = Inr (concat segs)
           \<and> avatar_url w (u\<lparr>avatar_hash := PStr h'\<rparr>) = Inr (concat segs')
           \<and> length segs = length (DISCORD_USER_AVATAR_BASE_URL (w_configs w))
           \<and> length segs' = length (DISCORD_USER_AVATAR_BASE_URL (w_configs w))
           \<and> (\<forall>i<length (DISCORD_USER_AVATAR_BASE_URL (w_configs w)).
                 DISCORD_USER_AVATAR_BASE_URL (w_configs w) ! i \<noteq> Fld ''avatar_hash'' \<longrightarrow>
                 segs' ! i = segs ! i)"
proof -
  define tmpl where "tmpl = DISCORD_USER_AVATAR_BASE_URL (w_configs w)"
  define fmt where "fmt = PStr (if prefix ''a_'' h then DISCORD_ANIMATED_IMAGE_FORMAT (w_configs w)
                    else DISCORD_IMAGE_FORMAT (w_configs w))"
  define kw where "kw = [(''user_id'', PInt (id_attr u)), (''avatar_hash'', PStr h), (''format'', fmt)]"
  define kw' where "kw' = [(''user_id'', PInt (id_attr u)), (''avatar_hash'', PStr h'), (''format'', fmt)]"
  have "avatar_url_segments w u = format_pieces (w_repr w) tmpl kw"
    unfolding tmpl_def kw_def fmt_def by (rule avatar_url_segments_str [OF h])
  with sg have segs: "format_pieces (w_repr w) tmpl kw = Inr segs"
    by simp
  have h': "avatar_hash (u\<lparr>avatar_hash := PStr h'\<rparr>) = PStr h'"
    by simp
  have segs': "avatar_url_segments w (u\<lparr>avatar_hash := PStr h'\<rparr>) = format_pieces (w_repr w) tmpl kw'"
    using avatar_url_segments_str [OF h', of w "w_repr w"] pf
    unfolding tmpl_def kw'_def fmt_def by simp
  have p1: "\<forall>k. k \<noteq> ''avatar_hash'' \<longrightarrow> map_of kw' k = map_of kw k"
    by (simp add: kw_def kw'_def)
  have p2: "map_of kw' ''avatar_hash'' \<noteq> None"
    by (simp add: kw'_def)
  from format_pieces_change_one [OF p1 p2 segs] obtain segs' where
    s: "format_pieces (w_repr w) tmpl kw' = Inr segs'"
    "length segs = length tmpl" "length segs' = length tmpl"
    "\<forall>i<length tmpl. tmpl ! i \<noteq> Fld ''avatar_hash'' \<longrightarrow> segs' ! i = segs ! i"
    by blast
  have u1: "avatar_url w u = Inr (concat segs)"
    by (simp add: avatar_url_concat sg)
  have u2: "avatar_url w (u\<lparr>avatar_hash := PStr h'\<rparr>) = Inr (concat segs')"
    by (simp add: avatar_url_concat segs' s(1))
  have s0: "avatar_url_segments w (u\<lparr>avatar_hash := PStr h'\<rparr>) = Inr segs'"
    using segs' s(1) by simp
  show ?thesis
    using s0 u1 u2 s(2,3,4) unfolding tmpl_def by blast
qed


lemmas eval_url =
  avatar_url_def avatar_url_segments_def is_avatar_animated_def avatar_url_kwargs_def
  str_format_def startswith_def str_of_int_def dec_nat.simps digit_char_def
  example_world_def example_configs_def example_user_def still_user_def

lemma add_to_guild_result:
  assumes "dict_getitem (w_session w) ''DISCORD_OAUTH2_TOKEN'' = Inr tok"
    and "py_getitem tok ''access_token'' = Inr at"
    and "dict_getitem (w_app_config w) ''DISCORD_BOT_TOKEN'' = Inr bt"
  shows "add_to_guild w u gid =
           (case w_request w
                   (''/guilds/'' @ str_of_int gid @ ''/members/'' @ str_of_int (id_attr u))
                   ''PUT'' False (PDict [(''access_token'', at)])
                   [(''Authorization'', ''Bot '' @ py_str (w_repr w) bt)] of
              Inl e \<Rightarrow> Inl e
            | Inr r \<Rightarrow> Inr (if py_truthy r then r else PDict []))"
    and "add_to_guild w u gid \<noteq> Inr PNone"
  using assms by (auto simp: add_to_guild_def split: sum.splits)

section \<open>The claims\<close>




text \<open>C2 (as amended). When the API call of \<open>fetch_guilds\<close> returns the records \<open>gs\<close>, the
  call returns the refreshed \<open>guilds\<close> view and the cache afterwards is built from \<open>gs\<close>
  alone: its keys are distinct and are exactly the ids of \<open>gs\<close>, each key holds the last
  record of \<open>gs\<close> with that id, and what an earlier fetch stored is gone (the cache
  afterwards is the same whatever the user held before). \<open>len(guilds)\<close> is the number of
  distinct ids among the records; it is the number of records, and \<open>guilds\<close> is the
  returned list itself, when the ids of the records are pairwise distinct.\<close>

theorem fetch_guilds_replaces_cache:
  assumes "Guild_fetch_from_api w = Inr gs"
  shows "\<exists>u'. fetch_guilds w u = (Inr (guilds u'), u')
           \<and> distinct (map fst (priv_guilds u'))
           \<and> fst ` set (priv_guilds u') = guild_id ` set gs
           \<and> set (guilds u') \<subseteq> set gs
           \<and> (\<forall>k. map_of (priv_guilds u') k = map_of (rev (map (\<lambda>g. (guild_id g, g)) gs)) k)
           \<and> length (guilds u') = card (guild_id ` set gs)
           \<and> (distinct (map guild_id gs) \<longrightarrow> guilds u' = gs \<and> length (guilds u') = length gs)
           \<and> priv_guilds u' = priv_guilds (snd (fetch_guilds w v))"
proof -
  define u' where "u' = u\<lparr>priv_guilds := guild_dict gs\<rparr>"
  have r: "fetch_guilds w u = (Inr (guilds u'), u')"
    using assms by (simp add: fetch_guilds_def u'_def Let_def)
  have c: "priv_guilds u' = guild_dict gs"
    by (simp add: u'_def)
  have g: "guilds u' = map snd (guild_dict gs)"
    by (simp add: guilds_def c)
  have other: "priv_guilds (snd (fetch_guilds w v)) = guild_dict gs"
    using assms by (simp add: fetch_guilds_def Let_def)
  have sub: "set (guilds u') \<subseteq> set gs"
    using guild_dict_values [of gs] by (simp add: g)
  have len: "length (guilds u') = card (guild_id ` set gs)"
    by (simp add: g guild_dict_length)
  have dist: "distinct (map guild_id gs) \<longrightarrow> guilds u' = gs \<and> length (guilds u') = length gs"
    by (simp add: g guild_dict_distinct_ids comp_def)
  show ?thesis
    using r c sub len dist other guild_dict_distinct [of gs] guild_dict_keys [of gs]
      guild_dict_lookup [of gs]
    by (intro exI [of _ u']) simp
qed

theorem fetch_guilds_replaces_cache_witness:
  "Guild_fetch_from_api example_world = Inr [guild_a, guild_b]
   \<and> (\<exists>u'. fetch_guilds example_world stale_user = (Inr (guilds u'), u')
         \<and> fst ` set (priv_guilds u') = guild_id ` set [guild_a, guild_b]
         \<and> guilds u' = [guild_a, guild_b]
         \<and> length (guilds u') = length [guild_a, guild_b])
   \<and> fst ` set (priv_guilds stale_user) = {1}
   \<and> fetch_guilds example_world stale_user =
       (Inr [guild_a, guild_b], example_user\<lparr>priv_guilds := [(7, guild_a), (9, guild_b)]\<rparr>)"
proof -
  have h: "Guild_fetch_from_api example_world = Inr [guild_a, guild_b]"
    by (simp add: example_world_def)
  have d: "distinct (map guild_id [guild_a, guild_b])"
    by (simp add: guild_a_def guild_b_def)
  have c: "\<exists>u'. fetch_guilds example_world stale_user = (Inr (guilds u'), u')
         \<and> fst ` set (priv_guilds u') = guild_id ` set [guild_a, guild_b]
         \<and> guilds u' = [guild_a, guild_b]
         \<and> length (guilds u') = length [guild_a, guild_b]"
    using fetch_guilds_replaces_cache [OF h, of stale_user stale_user] d by blast
  have e: "fetch_guilds example_world stale_user =
       (Inr [guild_a, guild_b], example_user\<lparr>priv_guilds := [(7, guild_a), (9, guild_b)]\<rparr>)"
    by (simp add: fetch_guilds_def guild_dict_def guilds_def example_world_def stale_user_def
                  guild_a_def guild_b_def Let_def)
  have s: "fst ` set (priv_guilds stale_user) = {1}"
    by (simp add: stale_user_def)
  show ?thesis
    by (intro conjI h c s e)
qed

theorem fetch_guilds_replaces_cache_counterexample:
  "Guild_fetch_from_api (example_world\<lparr>Guild_fetch_from_api := Inr [guild_a, guild_a2]\<rparr>) =
     Inr [guild_a, guild_a2]
   \<and> length [guild_a, guild_a2] = 2
   \<and> fetch_guilds (example_world\<lparr>Guild_fetch_from_api := Inr [guild_a, guild_a2]\<rparr>) example_user =
       (Inr [guild_a2], example_user\<lparr>priv_guilds := [(7, guild_a2)]\<rparr>)
   \<and> length (guilds (snd (fetch_guilds
         (example_world\<lparr>Guild_fetch_from_api := Inr [guild_a, guild_a2]\<rparr>) example_user))) = 1"
  by (simp add: fetch_guilds_def guild_dict_def guilds_def example_world_def
                guild_a_def guild_a2_def Let_def)


text \<open>C3. When the API call made by \<open>fetch_guilds\<close> raises, the error reaches the caller
  and the user object, its guild cache included, is exactly what it was before the
  call.\<close>

theorem fetch_guilds_failure_atomic:
  "Guild_fetch_from_api w = Inl e \<Longrightarrow>
     fetch_guilds w u = (Inl e, u)
     \<and> priv_guilds (snd (fetch_guilds w u)) = priv_guilds u
     \<and> guilds (snd (fetch_guilds w u)) = guilds u"
  by (simp add: fetch_guilds_def)

theorem fetch_guilds_failure_atomic_witness:
  "Guild_fetch_from_api (example_world\<lparr>Guild_fetch_from_api := Inl Unauthorized\<rparr>) = Inl Unauthorized
   \<and> fetch_guilds (example_world\<lparr>Guild_fetch_from_api := Inl Unauthorized\<rparr>) stale_user =
       (Inl Unauthorized, stale_user)
   \<and> priv_guilds (snd (fetch_guilds (example_world\<lparr>Guild_fetch_from_api := Inl Unauthorized\<rparr>)
         stale_user)) = [(1, \<lparr>guild_id = 1, guild_payload = []\<rparr>)]"
proof -
  have h: "Guild_fetch_from_api (example_world\<lparr>Guild_fetch_from_api := Inl Unauthorized\<rparr>) =
             Inl Unauthorized"
    by simp
  have s: "priv_guilds stale_user = [(1, \<lparr>guild_id = 1, guild_payload = []\<rparr>)]"
    by (simp add: stale_user_def)
  show ?thesis
    using fetch_guilds_failure_atomic [OF h, of stale_user] h s by simp
qed

text \<open>C4. A session that holds no OAuth2 token at all: \<open>add_to_guild\<close> raises \<open>KeyError\<close> on
  the subscript \<open>session["DISCORD_OAUTH2_TOKEN"]\<close> before any request is made, not
  \<open>Unauthorized\<close>.\<close>

theorem add_to_guild_without_token:
  "add_to_guild (w\<lparr>w_session := []\<rparr>) u gid = Inl (KeyError ''DISCORD_OAUTH2_TOKEN'')"
  by (simp add: add_to_guild_def dict_getitem_def)

text \<open>C5. For a user whose \<open>avatar_hash\<close> is a string, \<open>is_avatar_animated\<close> returns whether
  \<open>a_\<close> is a prefix of it: false for \<open>abc123\<close>, true for \<open>a_abc123\<close>. The result depends on
  \<open>avatar_hash\<close> alone.\<close>

theorem is_avatar_animated_iff_prefix:
  "(avatar_hash u = PStr h \<longrightarrow> is_avatar_animated u = Inr (prefix ''a_'' h))
   \<and> (avatar_hash u = PStr ''abc123'' \<longrightarrow> is_avatar_animated u = Inr False)
   \<and> (avatar_hash u = PStr ''a_abc123'' \<longrightarrow> is_avatar_animated u = Inr True)
   \<and> (avatar_hash u = avatar_hash u' \<longrightarrow> is_avatar_animated u = is_avatar_animated u')"
  by (simp add: is_avatar_animated_def startswith_prefix)

theorem is_avatar_animated_iff_prefix_witness:
  "avatar_hash example_user = PStr ''a_abc123''
   \<and> is_avatar_animated example_user = Inr True
   \<and> avatar_hash still_user = PStr ''abc123''
   \<and> is_avatar_animated still_user = Inr False
   \<and> avatar_hash (example_user\<lparr>username := PStr ''Other''\<rparr>) = avatar_hash example_user
   \<and> is_avatar_animated (example_user\<lparr>username := PStr ''Other''\<rparr>) =
       is_avatar_animated example_user"
proof -
  have h1: "avatar_hash example_user = PStr ''a_abc123''"
    by (simp add: example_user_def)
  have h2: "avatar_hash still_user = PStr ''abc123''"
    by (simp add: still_user_def)
  have h3: "avatar_hash (example_user\<lparr>username := PStr ''Other''\<rparr>) = avatar_hash example_user"
    by simp
  have c1: "is_avatar_animated example_user = Inr True"
    using is_avatar_animated_iff_prefix [of example_user "''a_abc123''" example_user] h1 by blast
  have c2: "is_avatar_animated still_user = Inr False"
    using is_avatar_animated_iff_prefix [of still_user "''abc123''" still_user] h2 by blast
  have c3: "is_avatar_animated (example_user\<lparr>username := PStr ''Other''\<rparr>) =
              is_avatar_animated example_user"
    using is_avatar_animated_iff_prefix
            [of "example_user\<lparr>username := PStr ''Other''\<rparr>" "''a_abc123''" example_user] h3
    by blast
  show ?thesis
    by (intro conjI h1 h2 h3 c1 c2 c3)
qed

text \<open>C6 (as amended). For a user whose \<open>avatar_hash\<close> is a string, \<open>avatar_url\<close> is the
  configured template formatted with the user's id, the hash, and the animated image
  format when the hash begins with \<open>a_\<close>, the static format otherwise. Equal
  (id, avatar_hash, configuration) always give the identical result. Changing
  \<open>avatar_hash\<close> alone, between two hashes that both begin with \<open>a_\<close> or both do not,
  changes only the segments of the URL that come from the \<open>avatar_hash\<close> field of the
  template.\<close>

theorem avatar_url_pure:
  "(avatar_hash u = PStr h \<longrightarrow>
      avatar_url w u =
        str_format (w_repr w) (DISCORD_USER_AVATAR_BASE_URL (w_configs w))
          [(''user_id'', PInt (id_attr u)), (''avatar_hash'', PStr h),
           (''format'', PStr (if prefix ''a_'' h then DISCORD_ANIMATED_IMAGE_FORMAT (w_configs w)
                              else DISCORD_IMAGE_FORMAT (w_configs w)))])
   \<and> (w_configs w = w_configs w' \<and> id_attr u = id_attr u' \<and> avatar_hash u = avatar_hash u' \<longrightarrow>
        avatar_url w u = avatar_url w' u')
   \<and> (avatar_hash u = PStr h \<and> prefix ''a_'' h' = prefix ''a_'' h
        \<and> avatar_url_segments w u = Inr segs \<longrightarrow>
        (\<exists>segs'. avatar_url_segments w (u\<lparr>avatar_hash := PStr h'\<rparr>) = Inr segs'
           \<and> avatar_url w u = Inr (concat segs)
           \<and> avatar_url w (u\<lparr>avatar_hash := PStr h'\<rparr>) = Inr (concat segs')
           \<and> length segs = length (DISCORD_USER_AVATAR_BASE_URL (w_configs w))
           \<and> length segs' = length (DISCORD_USER_AVATAR_BASE_URL (w_configs w))
           \<and> (\<forall>i<length (DISCORD_USER_AVATAR_BASE_URL (w_configs w)).
                 DISCORD_USER_AVATAR_BASE_URL (w_configs w) ! i \<noteq> Fld ''avatar_hash'' \<longrightarrow>
                 segs' ! i = segs ! i)))"
  using avatar_url_formatted [of u h w] avatar_url_same_inputs [of w w' u u']
    avatar_url_hash_segment [of u h h' w segs]
  by blast

theorem avatar_url_pure_witness:
  "avatar_hash example_user = PStr ''a_abc123''
   \<and> avatar_url example_world example_user =
       Inr ''https://cdn.discordapp.com/avatars/80351110224678912/a_abc123.gif''
   \<and> avatar_url (example_world\<lparr>w_session := []\<rparr>) (example_user\<lparr>username := PStr ''Other''\<rparr>) =
       avatar_url example_world example_user
   \<and> prefix ''a_'' ''a_ffff'' = prefix ''a_'' ''a_abc123''
   \<and> avatar_url_segments example_world example_user =
       Inr [''https://cdn.discordapp.com/avatars/'', ''80351110224678912'', ''/'', ''a_abc123'',
            ''.'', ''gif'']
   \<and> (\<exists>segs'. avatar_url_segments example_world (example_user\<lparr>avatar_hash := PStr ''a_ffff''\<rparr>) =
          Inr segs'
          \<and> avatar_url example_world (example_user\<lparr>avatar_hash := PStr ''a_ffff''\<rparr>) =
              Inr (concat segs')
          \<and> segs' ! 0 = ''https://cdn.discordapp.com/avatars/''
          \<and> segs' ! 1 = ''80351110224678912''
          \<and> segs' ! 5 = ''gif'')"
proof -
  let ?segs = "[''https://cdn.discordapp.com/avatars/'', ''80351110224678912'', ''/'', ''a_abc123'',
            ''.'', ''gif'']"
  have h1: "avatar_hash example_user = PStr ''a_abc123''"
    by (simp add: example_user_def)
  have h2: "w_configs (example_world\<lparr>w_session := []\<rparr>) = w_configs example_world
            \<and> id_attr (example_user\<lparr>username := PStr ''Other''\<rparr>) = id_attr example_user
            \<and> avatar_hash (example_user\<lparr>username := PStr ''Other''\<rparr>) = avatar_hash example_user"
    by simp
  have h3: "prefix ''a_'' ''a_ffff'' = prefix ''a_'' ''a_abc123''"
    by simp
  have h4: "avatar_url_segments example_world example_user = Inr ?segs"
    by (simp add: eval_url)
  have e: "str_format (w_repr example_world) (DISCORD_USER_AVATAR_BASE_URL (w_configs example_world))
          [(''user_id'', PInt (id_attr example_user)), (''avatar_hash'', PStr ''a_abc123''),
           (''format'', PStr (if prefix ''a_'' ''a_abc123''
                              then DISCORD_ANIMATED_IMAGE_FORMAT (w_configs example_world)
                              else DISCORD_IMAGE_FORMAT (w_configs example_world)))] =
           Inr ''https://cdn.discordapp.com/avatars/80351110224678912/a_abc123.gif''"
    by (simp add: eval_url)
  have tmpl: "DISCORD_USER_AVATAR_BASE_URL (w_configs example_world) =
     [Lit ''https://cdn.discordapp.com/avatars/'', Fld ''user_id'', Lit ''/'',
          Fld ''avatar_hash'', Lit ''.'', Fld ''format'']"
    by (simp add: example_world_def example_configs_def)
  have c1: "avatar_url example_world example_user =
       Inr ''https://cdn.discordapp.com/avatars/80351110224678912/a_abc123.gif''"
    using avatar_url_pure [of example_user "''a_abc123''" example_world] h1 e by simp
  have c2: "avatar_url (example_world\<lparr>w_session := []\<rparr>) (example_user\<lparr>username := PStr ''Other''\<rparr>) =
       avatar_url example_world example_user"
    using avatar_url_pure [of "example_user\<lparr>username := PStr ''Other''\<rparr>" "''a_abc123''"
            "example_world\<lparr>w_session := []\<rparr>" example_world example_user] h2
    by blast
  obtain segs' where s:
    "avatar_url_segments example_world (example_user\<lparr>avatar_hash := PStr ''a_ffff''\<rparr>) = Inr segs'"
    "avatar_url example_world (example_user\<lparr>avatar_hash := PStr ''a_ffff''\<rparr>) = Inr (concat segs')"
    "\<forall>i<length (DISCORD_USER_AVATAR_BASE_URL (w_configs example_world)).
        DISCORD_USER_AVATAR_BASE_URL (w_configs example_world) ! i \<noteq> Fld ''avatar_hash'' \<longrightarrow>
        segs' ! i = ?segs ! i"
    using avatar_url_pure [of example_user "''a_abc123''" example_world example_world example_user
            "''a_ffff''" ?segs] h1 h3 h4
    by blast
  have "segs' ! 0 = ?segs ! 0" "segs' ! 1 = ?segs ! 1" "segs' ! 5 = ?segs ! 5"
    using s(3) unfolding tmpl by simp_all
  then have n: "segs' ! 0 = ''https://cdn.discordapp.com/avatars/''"
    "segs' ! 1 = ''80351110224678912''" "segs' ! 5 = ''gif''"
    by simp_all
  have c3: "\<exists>segs'. avatar_url_segments example_world (example_user\<lparr>avatar_hash := PStr ''a_ffff''\<rparr>) =
          Inr segs'
          \<and> avatar_url example_world (example_user\<lparr>avatar_hash := PStr ''a_ffff''\<rparr>) =
              Inr (concat segs')
          \<and> segs' ! 0 = ''https://cdn.discordapp.com/avatars/''
          \<and> segs' ! 1 = ''80351110224678912''
          \<and> segs' ! 5 = ''gif''"
    using s(1,2) n by blast
  show ?thesis
    by (intro conjI h1 c1 c2 h3 h4 c3)
qed

theorem avatar_url_pure_counterexample:
  "avatar_url example_world still_user =
     Inr ''https://cdn.discordapp.com/avatars/80351110224678912/abc123.png''
   \<and> avatar_url example_world (still_user\<lparr>avatar_hash := PStr ''a_abc123''\<rparr>) =
     Inr ''https://cdn.discordapp.com/avatars/80351110224678912/a_abc123.gif''
   \<and> DISCORD_USER_AVATAR_BASE_URL (w_configs example_world) ! 5 = Fld ''format''
   \<and> avatar_url_segments example_world still_user =
     Inr [''https://cdn.discordapp.com/avatars/'', ''80351110224678912'', ''/'', ''abc123'', ''.'',
          ''png'']
   \<and> avatar_url_segments example_world (still_user\<lparr>avatar_hash := PStr ''a_abc123''\<rparr>) =
     Inr [''https://cdn.discordapp.com/avatars/'', ''80351110224678912'', ''/'', ''a_abc123'', ''.'',
          ''gif'']"
  by (simp add: eval_url)



text \<open>C8. A freshly constructed user has \<open>guilds == []\<close> and \<open>connections == []\<close>. Of the
  operations of \<open>User\<close>, only \<open>fetch_guilds\<close> changes the guild cache and only
  \<open>fetch_connections\<close> changes the connections list; so no other operation takes either
  from empty to populated.\<close>

theorem caches_empty_until_fetch:
  "(init_User p = Inr u \<longrightarrow> guilds u = [] \<and> connections u = [])
   \<and> (a \<noteq> Fetch_guilds \<longrightarrow>
        priv_guilds (snd (step w a v)) = priv_guilds v \<and> guilds (snd (step w a v)) = guilds v)
   \<and> (a \<noteq> Fetch_connections \<longrightarrow> connections (snd (step w a v)) = connections v)
   \<and> (guilds v = [] \<and> guilds (snd (step w a v)) \<noteq> [] \<longrightarrow> a = Fetch_guilds)
   \<and> (connections v = [] \<and> connections (snd (step w a v)) \<noteq> [] \<longrightarrow> a = Fetch_connections)"
proof -
  have frame_g: "priv_guilds (snd (step w a v)) = priv_guilds v" if "a \<noteq> Fetch_guilds"
    using that
    by (cases a) (simp_all add: fetch_connections_def Let_def split: sum.splits prod.splits)
  have frame_c: "connections (snd (step w a v)) = connections v" if "a \<noteq> Fetch_connections"
    using that
    by (cases a) (simp_all add: fetch_guilds_def Let_def split: sum.splits prod.splits)
  have fresh: "guilds u = [] \<and> connections u = []" if "init_User p = Inr u"
    using init_User_fields(3,4) [OF that] by (simp add: guilds_def)
  have grow_g: "a = Fetch_guilds" if "guilds v = []" "guilds (snd (step w a v)) \<noteq> []"
  proof (rule ccontr)
    assume "a \<noteq> Fetch_guilds"
    then have "guilds (snd (step w a v)) = guilds v" by (simp add: frame_g guilds_def)
    with that show False by simp
  qed
  have grow_c: "a = Fetch_connections"
    if "connections v = []" "connections (snd (step w a v)) \<noteq> []"
  proof (rule ccontr)
    assume "a \<noteq> Fetch_connections"
    then have "connections (snd (step w a v)) = connections v" by (rule frame_c)
    with that show False by simp
  qed
  show ?thesis
    using frame_g frame_c fresh grow_g grow_c by (simp add: guilds_def)
qed

theorem caches_empty_until_fetch_witness:
  "init_User example_payload = Inr example_user
   \<and> guilds example_user = [] \<and> connections example_user = []
   \<and> Add_to_guild 7 \<noteq> Fetch_guilds \<and> Add_to_guild 7 \<noteq> Fetch_connections
   \<and> guilds (snd (step example_world (Add_to_guild 7) example_user)) = []
   \<and> connections (snd (step example_world (Add_to_guild 7) example_user)) = []
   \<and> guilds (snd (step example_world Fetch_guilds example_user)) = [guild_a, guild_b]
   \<and> connections (snd (step example_world Fetch_connections example_user)) =
       [UserConnection [(''type'', PStr ''twitch'')]]"
proof -
  have h: "Add_to_guild 7 \<noteq> Fetch_guilds \<and> Add_to_guild 7 \<noteq> Fetch_connections"
    by simp
  have c0: "guilds example_user = [] \<and> connections example_user = []"
    using caches_empty_until_fetch [of example_payload example_user] init_example by blast
  have c1: "guilds (snd (step example_world (Add_to_guild 7) example_user)) = guilds example_user
            \<and> connections (snd (step example_world (Add_to_guild 7) example_user)) =
                connections example_user"
    using caches_empty_until_fetch [of _ _ "Add_to_guild 7" example_world example_user] h by blast
  have e1: "guilds (snd (step example_world Fetch_guilds example_user)) = [guild_a, guild_b]"
    by (simp add: fetch_guilds_def guild_dict_def guilds_def example_world_def
                  guild_a_def guild_b_def Let_def)
  have e2: "connections (snd (step example_world Fetch_connections example_user)) =
       [UserConnection [(''type'', PStr ''twitch'')]]"
    by (simp add: fetch_connections_def example_world_def Let_def)
  show ?thesis
    using init_example h c0 c1 e1 e2 by simp
qed

text \<open>C9. When the payload has the key \<open>avatar\<close> with the value \<open>None\<close>, the constructed
  user's \<open>avatar_hash\<close> is \<open>None\<close> (the discriminator is not used), and reading
  \<open>is_avatar_animated\<close> or \<open>avatar_url\<close> raises \<open>AttributeError\<close>. In general
  \<open>is_avatar_animated\<close> returns a value exactly when \<open>avatar_hash\<close> is a string, and
  \<open>avatar_url\<close> returns one only then.\<close>

theorem null_avatar_fails:
  "(init_User p = Inr u \<and> map_of p ''avatar'' = Some PNone \<longrightarrow>
      avatar_hash u = PNone
      \<and> is_avatar_animated u = Inl AttributeError
      \<and> avatar_url w u = Inl AttributeError)
   \<and> ((\<exists>b. is_avatar_animated u' = Inr b) = (\<exists>s. avatar_hash u' = PStr s))
   \<and> ((\<exists>s. avatar_url w u' = Inr s) \<longrightarrow> (\<exists>s. avatar_hash u' = PStr s))"
  by (auto simp: init_User_fields dict_get_def is_avatar_animated_def avatar_url_def
           split: pyval.splits sum.splits)

theorem null_avatar_fails_witness:
  "init_User null_avatar_payload = Inr (no_avatar_user\<lparr>priv_payload := null_avatar_payload, avatar_hash := PNone\<rparr>)
   \<and> map_of null_avatar_payload ''avatar'' = Some PNone
   \<and> avatar_hash (no_avatar_user\<lparr>priv_payload := null_avatar_payload, avatar_hash := PNone\<rparr>) = PNone
   \<and> is_avatar_animated (no_avatar_user\<lparr>priv_payload := null_avatar_payload, avatar_hash := PNone\<rparr>) =
       Inl AttributeError
   \<and> avatar_url example_world (no_avatar_user\<lparr>priv_payload := null_avatar_payload, avatar_hash := PNone\<rparr>) =
       Inl AttributeError
   \<and> avatar_url example_world example_user =
       Inr ''https://cdn.discordapp.com/avatars/80351110224678912/a_abc123.gif''
   \<and> (\<exists>s. avatar_hash example_user = PStr s)"
proof -
  let ?u = "no_avatar_user\<lparr>priv_payload := null_avatar_payload, avatar_hash := PNone\<rparr>"
  have i: "init_User null_avatar_payload = Inr ?u"
    by (simp add: eval_init null_avatar_payload_def no_avatar_user_def)
  have h: "map_of null_avatar_payload ''avatar'' = Some PNone"
    by (simp add: null_avatar_payload_def)
  have c: "avatar_hash ?u = PNone \<and> is_avatar_animated ?u = Inl AttributeError
           \<and> avatar_url example_world ?u = Inl AttributeError"
    using null_avatar_fails [of null_avatar_payload ?u example_world] i h by blast
  have e: "avatar_url example_world example_user =
       Inr ''https://cdn.discordapp.com/avatars/80351110224678912/a_abc123.gif''"
    by (simp add: eval_url)
  then have c2: "\<exists>s. avatar_hash example_user = PStr s"
    using null_avatar_fails [of _ _ example_world example_user] by blast
  show ?thesis
    using i h c e c2 by blast
qed

text \<open>C10. \<open>fetch_guilds\<close> leaves the connections list and every other attribute of the user
  as they were, whether it succeeds or raises; \<open>fetch_connections\<close> leaves the guild cache
  and every other attribute as they were.\<close>

theorem fetch_frame:
  "(let u' = snd (fetch_guilds w u) in
      connections u' = connections u \<and> id_attr u' = id_attr u \<and> username u' = username u
      \<and> discriminator u' = discriminator u \<and> avatar_hash u' = avatar_hash u
      \<and> bot_attr u' = bot_attr u \<and> mfa_enabled u' = mfa_enabled u
      \<and> locale_attr u' = locale_attr u \<and> verified u' = verified u \<and> email u' = email u
      \<and> flags u' = flags u \<and> premium_type u' = premium_type u
      \<and> priv_payload u' = priv_payload u)
   \<and> (let u' = snd (fetch_connections w u) in
      priv_guilds u' = priv_guilds u \<and> guilds u' = guilds u
      \<and> id_attr u' = id_attr u \<and> username u' = username u
      \<and> discriminator u' = discriminator u \<and> avatar_hash u' = avatar_hash u
      \<and> bot_attr u' = bot_attr u \<and> mfa_enabled u' = mfa_enabled u
      \<and> locale_attr u' = locale_attr u \<and> verified u' = verified u \<and> email u' = email u
      \<and> flags u' = flags u \<and> premium_type u' = premium_type u
      \<and> priv_payload u' = priv_payload u)"
  by (simp add: fetch_guilds_def fetch_connections_def guilds_def Let_def split: sum.splits)

end
